theory Spec2Isabelle
  imports Complex_Main "HOL-Library.Word" "HOL-Library.Log_Nat"
begin

section \<open>The read service of the book catalogue\<close>

text \<open>
  The development follows \<^verbatim>\<open>BuchReadService\<close> (service/buch-read.service.ts) and
  \<^verbatim>\<open>BuchQueryResolver\<close> (graphql/buch-query.resolver.ts). Calls of the logger are
  left out: they return nothing and no result depends on them.
\<close>

subsection \<open>Failures\<close>

text \<open>
  The only exception class the service throws is NestJS's \<^verbatim>\<open>NotFoundException\<close>,
  constructed from a message string. A rejected promise is the left summand of a result.
\<close>

datatype exception = NotFoundException (message: string)

subsection \<open>Search criteria\<close>

text \<open>
  A \<^verbatim>\<open>Suchkriterien\<close> object is a JavaScript object: its own enumerable string keys
  in insertion order, each with a value. \<^verbatim>\<open>Object.keys\<close> lists the keys in that order.
  The type of the values is left open.
\<close>

type_synonym 'v suchkriterien = "(string \<times> 'v) list"

definition Object_keys :: "'v suchkriterien \<Rightarrow> string list" where
  "Object_keys suchkriterien = map fst suchkriterien"

text \<open>
  \<^verbatim>\<open>#checkKeys\<close>: the flag \<^verbatim>\<open>validKeys\<close> starts as true and the body of
  \<^verbatim>\<open>forEach\<close> sets it to false at every key that is neither included in
  \<^verbatim>\<open>#buchProps\<close> nor one of the two keyword names. The property names
  \<^verbatim>\<open>#buchProps\<close> are computed in the constructor from the entity class, which is
  outside the sources at hand, hence a parameter.
\<close>

definition checkKeys_step :: "string list \<Rightarrow> string \<Rightarrow> bool \<Rightarrow> bool" where
  "checkKeys_step buchProps key validKeys =
     (if key \<notin> set buchProps \<and> key \<noteq> ''javascript'' \<and> key \<noteq> ''typescript''
      then False else validKeys)"

definition checkKeys :: "string list \<Rightarrow> string list \<Rightarrow> bool" where
  "checkKeys buchProps keys = fold (checkKeys_step buchProps) keys True"

subsection \<open>Numbers and their text\<close>

text \<open>
  A JavaScript number that is finite is taken by its exact value, a rational; negative
  zero is not told apart from zero. Identifiers are numbers holding integers. Every
  integer below \<open>2\<^sup>5\<^sup>3\<close> in magnitude is a double, and a template literal writes it as
  its decimal digits, with a minus sign when negative: this is \<open>String_int\<close>. From
  \<open>2\<^sup>5\<^sup>3\<close> on JavaScript writes the shortest digits that read back as the same double,
  filled up with zeros (\<^verbatim>\<open>18446744073709552000\<close> for \<open>2\<^sup>6\<^sup>4\<close>), and from \<open>10\<^sup>2\<^sup>1\<close> on
  exponent notation; that text is outside this model, and every statement below about
  the text of an identifier carries the bound \<open>2\<^sup>5\<^sup>3\<close>.
\<close>

type_synonym number = rat

definition digit :: "nat \<Rightarrow> char" where
  "digit d = ''0123456789'' ! d"

fun digits :: "nat \<Rightarrow> string" where
  "digits n = (if n < 10 then [digit n] else digits (n div 10) @ [digit (n mod 10)])"

declare digits.simps [simp del]

definition String_int :: "int \<Rightarrow> string" where
  "String_int i = (if i < 0 then ''-'' @ digits (nat (- i)) else digits (nat i))"

text \<open>
  The finite numbers of JavaScript are the doubles: the rationals \<open>m \<cdot> 2\<^sup>p\<close> with
  \<open>\<bar>m\<bar> < 2\<^sup>5\<^sup>3\<close> and \<open>- 1074 \<le> p\<close>. The product of two numbers is the exact product
  rounded to the nearest double, a tie going to the even \<open>m\<close>; \<open>exponent x\<close> is the
  integer part of the binary logarithm of a positive \<open>x\<close>. A product of magnitude
  \<open>2\<^sup>1\<^sup>0\<^sup>2\<^sup>4\<close> or more is infinite in JavaScript and is outside this model.
\<close>

definition pow2 :: "int \<Rightarrow> rat" where
  "pow2 k = 2 powi k"

definition exponent :: "rat \<Rightarrow> int" where
  "exponent x =
     (let (a, b) = quotient_of x; k = bitlen a - bitlen b
      in if pow2 k \<le> x then k else k - 1)"

definition round_half_even :: "rat \<Rightarrow> int" where
  "round_half_even y =
     (let f = \<lfloor>y\<rfloor>; d = y - of_int f
      in if d < 1 / 2 then f else if 1 / 2 < d then f + 1 else if even f then f else f + 1)"

definition round_double :: "rat \<Rightarrow> number" where
  "round_double x =
     (if x = 0 then 0
      else let p = max (exponent \<bar>x\<bar> - 52) (- 1074)
           in of_int (round_half_even (x / pow2 p)) * pow2 p)"

definition number_times :: "number \<Rightarrow> number \<Rightarrow> number" where
  "number_times x y = round_double (x * y)"

text \<open>
  \<^verbatim>\<open>Number.prototype.toFixed\<close> for a finite number below \<open>10\<^sup>2\<^sup>1\<close> in magnitude (from
  there on JavaScript answers in exponent notation, which is outside this model): \<open>n\<close>
  is the integer nearest to \<open>\<bar>x\<bar> \<cdot> 10\<^sup>f\<close>, the larger one of two; its digits are padded
  with zeros on the left to \<open>f + 1\<close> digits and the point is set before the last \<open>f\<close>.
\<close>

definition toFixed :: "number \<Rightarrow> nat \<Rightarrow> string" where
  "toFixed x f =
     (let s = (if x < 0 then ''-'' else []);
          n = nat \<lfloor>\<bar>x\<bar> * 10 ^ f + 1 / 2\<rfloor>;
          m = (if n = 0 then ''0'' else digits n);
          k = length m;
          m = (if k \<le> f then replicate (f + 1 - k) CHR ''0'' @ m else m);
          k = (if k \<le> f then f + 1 else k)
      in if f \<noteq> 0 then s @ take (k - f) m @ ''.'' @ drop (k - f) m else s @ m)"

text \<open>Reading a string of decimal digits back as a number.\<close>

definition digit_value :: "char \<Rightarrow> nat" where
  "digit_value c = of_char c - 48"

definition decimal :: "string \<Rightarrow> nat" where
  "decimal ds = foldl (\<lambda>v c. 10 * v + digit_value c) 0 ds"

subsection \<open>Books\<close>

text \<open>
  Modelled from the spec: the entity class \<^verbatim>\<open>Buch\<close> (entity/buch.entity.ts) is not
  among the sources at hand. The fields are those of the spec's data model, which are
  also the properties the interface \<^verbatim>\<open>Suchkriterien\<close> names, with the identifier and the
  images. \<^verbatim>\<open>rabatt\<close> may be undefined (the resolver reads it with \<^verbatim>\<open>?? 0\<close>), and
  \<^verbatim>\<open>abbildungen\<close> is undefined on a book loaded without its images. The type of an
  image record is left open.
\<close>

record 'a buch =
  buch_id :: int
  isbn :: string
  rating :: number
  art :: string
  preis :: number
  rabatt :: "number option"
  lieferbar :: bool
  datum :: string
  homepage :: string
  titel :: string
  abbildungen :: "'a list option"

subsection \<open>The query builder, as the service sees it\<close>

text \<open>
  The service is constructed with a \<^verbatim>\<open>QueryBuilder\<close>. Its methods \<^verbatim>\<open>build\<close> and
  \<^verbatim>\<open>buildId\<close> return a query object, on which \<^verbatim>\<open>getMany\<close> and \<^verbatim>\<open>getOne\<close> run the
  query against the store; \<^verbatim>\<open>getOne\<close> answers \<^verbatim>\<open>null\<close> (here \<open>None\<close>) when no row
  is found. The store is only read, so a query object is given by what its two methods
  return.
\<close>

record 'a selectQuery =
  getMany :: "'a buch list"
  getOne :: "'a buch option"

record ('v, 'a) queryBuilder =
  build :: "'v suchkriterien \<Rightarrow> 'a selectQuery"
  buildId :: "int \<Rightarrow> bool \<Rightarrow> 'a selectQuery"

text \<open>
  What a request does to the query builder and the store is kept in a log of calls, in
  the order in which they happen: each call of \<^verbatim>\<open>build\<close> or \<^verbatim>\<open>buildId\<close> with its
  arguments, and each execution of a query.
\<close>

datatype 'v call =
  Build "'v suchkriterien"
  | BuildId int bool
  | GetMany
  | GetOne

definition call_build ::
  "('v, 'a) queryBuilder \<Rightarrow> 'v suchkriterien \<Rightarrow> 'v call list \<Rightarrow> 'a selectQuery \<times> 'v call list" where
  "call_build qb suchkriterien calls = (build qb suchkriterien, calls @ [Build suchkriterien])"

definition call_buildId ::
  "('v, 'a) queryBuilder \<Rightarrow> int \<Rightarrow> bool \<Rightarrow> 'v call list \<Rightarrow> 'a selectQuery \<times> 'v call list" where
  "call_buildId qb i mit calls = (buildId qb i mit, calls @ [BuildId i mit])"

definition call_getMany :: "'a selectQuery \<Rightarrow> 'v call list \<Rightarrow> 'a buch list \<times> 'v call list" where
  "call_getMany q calls = (getMany q, calls @ [GetMany])"

definition call_getOne :: "'a selectQuery \<Rightarrow> 'v call list \<Rightarrow> 'a buch option \<times> 'v call list" where
  "call_getOne q calls = (getOne q, calls @ [GetOne])"

subsection \<open>The read service\<close>

text \<open>
  The service object: the property names of the entity and the query builder. The
  third collaborator of \<^verbatim>\<open>find\<close> is \<^verbatim>\<open>JSON.stringify\<close>, a parameter here since the
  values of the criteria are left open.
\<close>

record ('v, 'a) buchReadService =
  buchProps :: "string list"
  queryBuilder :: "('v, 'a) queryBuilder"

text \<open>\<^verbatim>\<open>FindByIdParams\<close>: \<^verbatim>\<open>mitAbbildungen\<close> is optional.\<close>

record findByIdParams =
  params_id :: int
  mitAbbildungen :: "bool option"

text \<open>
  \<^verbatim>\<open>findById({ id, mitAbbildungen = false })\<close>: the destructuring default replaces an
  undefined \<^verbatim>\<open>mitAbbildungen\<close> by false.
\<close>

definition service_findById ::
  "('v, 'a) buchReadService \<Rightarrow> findByIdParams \<Rightarrow> 'v call list
     \<Rightarrow> (exception + 'a buch) \<times> 'v call list" where
  "service_findById svc params calls =
     (let i = params_id params;
          mit = (case mitAbbildungen params of None \<Rightarrow> False | Some m \<Rightarrow> m);
          (q, calls1) = call_buildId (queryBuilder svc) i mit calls;
          (buch, calls2) = call_getOne q calls1
      in case buch of
           None \<Rightarrow>
             (Inl (NotFoundException (''Es gibt kein Buch mit der ID '' @ String_int i @ ''.'')),
              calls2)
         | Some b \<Rightarrow> (Inr b, calls2))"

text \<open>
  \<^verbatim>\<open>find(suchkriterien?)\<close>: an undefined argument is \<open>None\<close>. The branches stand in
  the order of the source: no criteria, no keys, a key that fails the check, no rows.
\<close>

definition service_find ::
  "('v, 'a) buchReadService \<Rightarrow> ('v suchkriterien \<Rightarrow> string) \<Rightarrow> 'v suchkriterien option
     \<Rightarrow> 'v call list \<Rightarrow> (exception + 'a buch list) \<times> 'v call list" where
  "service_find svc JSON_stringify suchkriterien calls =
     (case suchkriterien of
        None \<Rightarrow>
          (let (q, calls1) = call_build (queryBuilder svc) [] calls;
               (buecher, calls2) = call_getMany q calls1
           in (Inr buecher, calls2))
      | Some sk \<Rightarrow>
          (let keys = Object_keys sk in
           if length keys = 0 then
             (let (q, calls1) = call_build (queryBuilder svc) sk calls;
                  (buecher, calls2) = call_getMany q calls1
              in (Inr buecher, calls2))
           else if \<not> checkKeys (buchProps svc) keys then
             (Inl (NotFoundException ''Ungueltige Suchkriterien''), calls)
           else
             (let (q, calls1) = call_build (queryBuilder svc) sk calls;
                  (buecher, calls2) = call_getMany q calls1
              in if length buecher = 0 then
                   (Inl (NotFoundException (''Keine Buecher gefunden: '' @ JSON_stringify sk)),
                    calls2)
                 else (Inr buecher, calls2))))"

subsection \<open>Images by name\<close>

text \<open>
  The file system is a partial map from paths to contents: \<^verbatim>\<open>fs.readFile\<close> fulfils
  with the bytes of the file, or rejects (here \<open>None\<close>). A \<^verbatim>\<open>Buffer\<close> is an object,
  and \<^verbatim>\<open>!\<close> of an object is false whatever it holds.
\<close>

type_synonym buffer = "8 word list"

definition not_Buffer :: "buffer \<Rightarrow> bool" where
  "not_Buffer imageBuffer = False"

definition loadImageFromFileSystem :: "(string \<rightharpoonup> buffer) \<Rightarrow> string \<Rightarrow> exception + buffer" where
  "loadImageFromFileSystem readFile imageName =
     (let imagePath = ''C:/Users/Student/SWE/buch/images/'' @ imageName in
      case readFile imagePath of
        Some imageBuffer \<Rightarrow> Inr imageBuffer
      | None \<Rightarrow> Inl (NotFoundException (''Image not found for name: '' @ imageName)))"

definition loadImageFromServer :: "(string \<rightharpoonup> buffer) \<Rightarrow> string \<Rightarrow> exception + buffer" where
  "loadImageFromServer readFile imageName =
     (case loadImageFromFileSystem readFile imageName of
        Inl e \<Rightarrow> Inl e
      | Inr imageBuffer \<Rightarrow>
          if not_Buffer imageBuffer
          then Inl (NotFoundException (''Image not found for name: '' @ imageName))
          else Inr imageBuffer)"

definition service_findImageByName :: "(string \<rightharpoonup> buffer) \<Rightarrow> string \<Rightarrow> exception + buffer" where
  "service_findImageByName readFile imageName =
     (case loadImageFromServer readFile imageName of
        Inl e \<Rightarrow> Inl e
      | Inr imageBuffer \<Rightarrow>
          if not_Buffer imageBuffer
          then Inl (NotFoundException (''No image found for name: '' @ imageName))
          else Inr imageBuffer)"

subsection \<open>The GraphQL resolver\<close>

text \<open>\<^verbatim>\<open>IdInput\<close> has the one field \<^verbatim>\<open>id\<close>.\<close>

record idInput =
  idInput_id :: int

text \<open>
  The query \<^verbatim>\<open>buch\<close>: the object handed to the service is \<^verbatim>\<open>{ id }\<close>, so
  \<^verbatim>\<open>mitAbbildungen\<close> is undefined in it.
\<close>

definition resolver_findById ::
  "('v, 'a) buchReadService \<Rightarrow> idInput \<Rightarrow> 'v call list \<Rightarrow> (exception + 'a buch) \<times> 'v call list" where
  "resolver_findById svc input calls =
     (let i = idInput_id input
      in service_findById svc \<lparr>params_id = i, mitAbbildungen = None\<rparr> calls)"

text \<open>
  The field \<^verbatim>\<open>rabatt\<close>: an undefined discount counts as zero, and \<^verbatim>\<open>short\<close> may be
  undefined.
\<close>

definition resolver_rabatt :: "'a buch \<Rightarrow> bool option \<Rightarrow> string" where
  "resolver_rabatt buch short =
     (let r = (case rabatt buch of None \<Rightarrow> 0 | Some x \<Rightarrow> x);
          shortStr = (if short = None \<or> short = Some True then ''%'' else ''Prozent'')
      in toFixed (number_times r 100) 2 @ '' '' @ shortStr)"

subsection \<open>The query builder of the spec\<close>

text \<open>
  Modelled from the spec: the class \<^verbatim>\<open>QueryBuilder\<close> (service/query-builder.ts) and
  the store it queries are not among the sources at hand. By the spec, the query by
  identifier fetches at most one book with that identifier and joins the images only if
  requested; the query by criteria filters the books by the conjunction of all supplied
  criteria, so that the empty mapping filters nothing; images are never loaded unless
  requested. How one criterion compares with a book is the parameter \<open>matches\<close>. The
  store holds each book with its image records; what the field \<^verbatim>\<open>abbildungen\<close> of a
  stored book holds is never read.
\<close>

type_synonym 'a store = "('a buch \<times> 'a list) list"

definition load :: "bool \<Rightarrow> 'a buch \<times> 'a list \<Rightarrow> 'a buch" where
  "load mit row = (fst row)\<lparr>abbildungen := (if mit then Some (snd row) else None)\<rparr>"

definition select :: "'a store \<Rightarrow> ('a buch \<Rightarrow> bool) \<Rightarrow> bool \<Rightarrow> 'a selectQuery" where
  "select store p mit =
     (let rows = map (load mit) (filter (\<lambda>row. p (fst row)) store)
      in \<lparr>getMany = rows, getOne = (case rows of [] \<Rightarrow> None | b # _ \<Rightarrow> Some b)\<rparr>)"

definition spec_QueryBuilder ::
  "(string \<Rightarrow> 'v \<Rightarrow> 'a buch \<Rightarrow> bool) \<Rightarrow> 'a store \<Rightarrow> ('v, 'a) queryBuilder" where
  "spec_QueryBuilder matches store =
     \<lparr>build = (\<lambda>suchkriterien.
         select store (\<lambda>b. list_all (\<lambda>(k, v). matches k v b) suchkriterien) False),
      buildId = (\<lambda>i mit. select store (\<lambda>b. buch_id b = i) mit)\<rparr>"

subsection \<open>A small catalogue\<close>

text \<open>
  Two books, the first with one image, for the concrete instances below. Image records
  and the values of criteria are strings here; a criterion on \<^verbatim>\<open>titel\<close> or \<^verbatim>\<open>art\<close>
  compares for equality and any other criterion holds of every book. The stand-in for
  \<^verbatim>\<open>JSON.stringify\<close> writes each key and value, which is all the instances need.
\<close>

definition example_buch :: "int \<Rightarrow> string \<Rightarrow> string buch" where
  "example_buch i t =
     \<lparr>buch_id = i, isbn = ''978-3-897-22583-1'', rating = 4, art = ''KINDLE'', preis = 33,
      rabatt = None, lieferbar = True, datum = ''2022-02-01'', homepage = ''https://acme.at'',
      titel = t, abbildungen = None\<rparr>"

definition example_store :: "string store" where
  "example_store = [(example_buch 1 ''Alpha'', [''Abb. 1'']), (example_buch 20 ''Beta'', [])]"

definition example_matches :: "string \<Rightarrow> string \<Rightarrow> string buch \<Rightarrow> bool" where
  "example_matches k v b =
     (if k = ''titel'' then titel b = v else if k = ''art'' then art b = v else True)"

definition example_stringify :: "string suchkriterien \<Rightarrow> string" where
  "example_stringify sk = concat (map (\<lambda>(k, v). k @ '':'' @ v @ '';'') sk)"

definition example_service :: "(string, string) buchReadService" where
  "example_service =
     \<lparr>buchProps = [''id'', ''isbn'', ''art'', ''titel''],
      queryBuilder = spec_QueryBuilder example_matches example_store\<rparr>"

text \<open>
  A book with the discount \<^verbatim>\<open>0.1\<close>: the number that JavaScript reads from this
  numeral is the double nearest to one tenth.
\<close>

definition example_rabatt_buch :: "string buch" where
  "example_rabatt_buch = (example_buch 1 ''Alpha'')\<lparr>rabatt := Some (round_double (1 / 10))\<rparr>"

section \<open>Properties\<close>

subsection \<open>The criteria validator\<close>

lemma fold_checkKeys_step:
  "fold (checkKeys_step ps) ks b =
     (b \<and> (\<forall>k \<in> set ks. k \<in> set ps \<or> k = ''javascript'' \<or> k = ''typescript''))"
proof (induction ks arbitrary: b)
  case Nil
  show ?case by simp
next
  case (Cons k ks)
  show ?case
    unfolding fold_simps Cons.IH
    by (auto simp: checkKeys_step_def)
qed

lemma checkKeys_iff:
  "checkKeys ps ks = (\<forall>k \<in> set ks. k \<in> set ps \<or> k = ''javascript'' \<or> k = ''typescript'')"
  by (simp add: checkKeys_def fold_checkKeys_step)

text \<open>
  C5. The criteria validator answers true exactly when every supplied key is a known
  property name or one of the two reserved names \<^verbatim>\<open>javascript\<close> and
  \<^verbatim>\<open>typescript\<close>; a single unrecognised key makes the answer false, wherever it
  stands among the keys.
\<close>

theorem checkKeys_all_or_nothing:
  "checkKeys props keys =
     (\<forall>key \<in> set keys. key \<in> set props \<or> key = ''javascript'' \<or> key = ''typescript'')"
  by (rule checkKeys_iff)

theorem checkKeys_all_or_nothing_witness:
  "checkKeys [''id'', ''titel''] [''titel'', ''javascript''] \<and>
   \<not> checkKeys [''id'', ''titel''] [''titel'', ''verlag'', ''typescript'']"
  using checkKeys_all_or_nothing [of "[''id'', ''titel'']" "[''titel'', ''javascript'']"]
    checkKeys_all_or_nothing [of "[''id'', ''titel'']" "[''titel'', ''verlag'', ''typescript'']"]
  by simp


subsection \<open>Decimal digits\<close>

lemma below_ten: "(d::nat) < 10 \<longleftrightarrow> d \<in> {0, 1, 2, 3, 4, 5, 6, 7, 8, 9}"
  by auto

lemma digit_value_digit: "d < 10 \<Longrightarrow> digit_value (digit d) = d"
  unfolding below_ten by (auto simp: digit_def digit_value_def)

lemma digit_is_digit: "d < 10 \<Longrightarrow> digit d \<in> set ''0123456789''"
  unfolding below_ten by (auto simp: digit_def)

lemma decimal_snoc: "decimal (ds @ [c]) = 10 * decimal ds + digit_value c"
  by (simp add: decimal_def)

lemma decimal_digits: "decimal (digits n) = n"
proof (induction n rule: digits.induct)
  case (1 n)
  show ?case
  proof (cases "n < 10")
    case True
    then show ?thesis
      by (simp add: digits.simps [of n] decimal_def digit_value_digit)
  next
    case False
    with 1 have "decimal (digits (n div 10)) = n div 10" by simp
    with False show ?thesis
      by (simp add: digits.simps [of n] decimal_snoc digit_value_digit)
  qed
qed

lemma digits_not_Nil: "digits n \<noteq> []"
  by (simp add: digits.simps [of n])

lemma set_digits: "set (digits n) \<subseteq> set ''0123456789''"
proof (induction n rule: digits.induct)
  case (1 n)
  show ?case
  proof (cases "n < 10")
    case True
    with digit_is_digit [of n] show ?thesis
      by (simp add: digits.simps [of n])
  next
    case False
    with 1 have "set (digits (n div 10)) \<subseteq> set ''0123456789''" by simp
    moreover have "digit (n mod 10) \<in> set ''0123456789''"
      by (rule digit_is_digit) simp
    ultimately show ?thesis using False
      by (simp add: digits.simps [of n])
  qed
qed

subsection \<open>What the two operations of the service compute\<close>

lemma service_find_invalid:
  assumes "key \<in> set (Object_keys sk)" and "key \<notin> set (buchProps svc)"
    and "key \<noteq> ''javascript''" and "key \<noteq> ''typescript''"
  shows "service_find svc js (Some sk) calls =
           (Inl (NotFoundException ''Ungueltige Suchkriterien''), calls)"
proof -
  from assms(1) have "length (Object_keys sk) \<noteq> 0" by auto
  moreover from assms have "\<not> checkKeys (buchProps svc) (Object_keys sk)"
    by (auto simp: checkKeys_iff)
  ultimately show ?thesis
    by (simp add: service_find_def Let_def)
qed

lemma service_find_valid:
  assumes "Object_keys sk \<noteq> []" and "checkKeys (buchProps svc) (Object_keys sk)"
  shows "service_find svc js (Some sk) calls =
           (if getMany (build (queryBuilder svc) sk) = []
            then Inl (NotFoundException (''Keine Buecher gefunden: '' @ js sk))
            else Inr (getMany (build (queryBuilder svc) sk)),
            calls @ [Build sk, GetMany])"
  using assms
  by (simp add: service_find_def Let_def call_build_def call_getMany_def)

lemma service_find_undefined:
  "service_find svc js None calls =
     (Inr (getMany (build (queryBuilder svc) [])), calls @ [Build [], GetMany])"
  by (simp add: service_find_def Let_def call_build_def call_getMany_def)

lemma service_find_no_keys:
  "service_find svc js (Some []) calls =
     (Inr (getMany (build (queryBuilder svc) [])), calls @ [Build [], GetMany])"
  by (simp add: service_find_def Let_def call_build_def call_getMany_def Object_keys_def)

lemma service_findById_eq:
  "service_findById svc \<lparr>params_id = i, mitAbbildungen = m\<rparr> calls =
     (case getOne (buildId (queryBuilder svc) i (case m of None \<Rightarrow> False | Some x \<Rightarrow> x)) of
        None \<Rightarrow> Inl (NotFoundException (''Es gibt kein Buch mit der ID '' @ String_int i @ ''.''))
      | Some b \<Rightarrow> Inr b,
      calls @ [BuildId i (case m of None \<Rightarrow> False | Some x \<Rightarrow> x), GetOne])"
  by (simp add: service_findById_def Let_def call_buildId_def call_getOne_def
      split: option.splits)

subsection \<open>What the query builder of the spec answers\<close>

lemma spec_build_no_criteria:
  "getMany (build (spec_QueryBuilder matches store) []) = map (load False) store"
  by (simp add: spec_QueryBuilder_def select_def Let_def)

lemma filter_unique:
  assumes "distinct (map f xs)" and "x \<in> set xs"
  shows "filter (\<lambda>y. f y = f x) xs = [x]"
  using assms
proof (induction xs)
  case Nil
  then show ?case by simp
next
  case (Cons y ys)
  show ?case
  proof (cases "y = x")
    case True
    from Cons.prems True have "f x \<notin> f ` set ys" by simp
    then have "\<forall>z \<in> set ys. f z \<noteq> f x" by (auto simp: image_iff)
    then have "filter (\<lambda>y. f y = f x) ys = []" by (simp add: filter_empty_conv)
    with True show ?thesis by simp
  next
    case False
    with Cons.prems have "x \<in> set ys" and "f y \<noteq> f x" and "distinct (map f ys)" by auto
    with Cons.IH show ?thesis by simp
  qed
qed

lemma spec_getOne_found:
  assumes "distinct (map (\<lambda>row. buch_id (fst row)) store)" and "row \<in> set store"
  shows "getOne (buildId (spec_QueryBuilder matches store) (buch_id (fst row)) mit) =
           Some (load mit row)"
  using filter_unique [OF assms]
  by (simp add: spec_QueryBuilder_def select_def Let_def)



lemma spec_getOne_abbildungen:
  assumes "getOne (buildId (spec_QueryBuilder matches store) i mit) = Some b"
  shows "abbildungen b = None \<longleftrightarrow> \<not> mit"
proof (cases "filter (\<lambda>row. buch_id (fst row) = i) store")
  case Nil
  with assms show ?thesis
    by (simp add: spec_QueryBuilder_def select_def Let_def)
next
  case (Cons row rows)
  with assms have "b = load mit row"
    by (simp add: spec_QueryBuilder_def select_def Let_def)
  then show ?thesis by (simp add: load_def)
qed

lemmas example_defs =
  example_service_def example_store_def example_buch_def example_matches_def
  example_stringify_def spec_QueryBuilder_def select_def load_def

lemmas service_defs =
  service_find_def service_findById_def call_build_def call_buildId_def
  call_getMany_def call_getOne_def Object_keys_def checkKeys_def checkKeys_step_def Let_def

lemma example_store_distinct:
  "distinct (map (\<lambda>row. buch_id (fst row)) example_store)"
  by (simp add: example_defs)

subsection \<open>Searching\<close>

text \<open>
  C1, as the code has it. A criteria mapping with at least one key that is neither a
  known property name nor \<^verbatim>\<open>javascript\<close> or \<^verbatim>\<open>typescript\<close> makes \<^verbatim>\<open>find\<close> fail
  with a \<^verbatim>\<open>NotFoundException\<close> whose message is the fixed text
  \<^verbatim>\<open>Ungueltige Suchkriterien\<close>: the failure is of the class of the not-found failures
  and does not name the offending keys.
\<close>

theorem find_unknown_key_fails:
  assumes "key \<in> set (Object_keys sk)" and "key \<notin> set (buchProps svc)"
    and "key \<noteq> ''javascript''" and "key \<noteq> ''typescript''"
  shows "fst (service_find svc JSON_stringify (Some sk) calls) =
           Inl (NotFoundException ''Ungueltige Suchkriterien'')"
  by (simp add: service_find_invalid [OF assms])

theorem find_unknown_key_fails_witness:
  "fst (service_find example_service example_stringify
          (Some [(''titel'', ''Alpha''), (''verlag'', ''Acme'')]) []) =
     Inl (NotFoundException ''Ungueltige Suchkriterien'')"
  using find_unknown_key_fails [of "''verlag''" "[(''titel'', ''Alpha''), (''verlag'', ''Acme'')]"
      example_service example_stringify "[]"]
  by (simp add: Object_keys_def example_service_def)

text \<open>
  C1, as the spec states it, fails: two requests with different unknown keys fail with
  the very same value, so the failure does not identify the offending key, and that
  value is a \<^verbatim>\<open>NotFoundException\<close>, like the failure of a valid request that matches no
  book.
\<close>

theorem find_unknown_key_counterexample:
  "fst (service_find example_service example_stringify (Some [(''verlag'', ''Acme'')]) []) =
     Inl (NotFoundException ''Ungueltige Suchkriterien'') \<and>
   fst (service_find example_service example_stringify (Some [(''autor'', ''Acme'')]) []) =
     Inl (NotFoundException ''Ungueltige Suchkriterien'') \<and>
   fst (service_find example_service example_stringify (Some [(''titel'', ''Gamma'')]) []) =
     Inl (NotFoundException ''Keine Buecher gefunden: titel:Gamma;'')"
  by (simp add: service_defs example_defs)

text \<open>
  C2. Called with no criteria, or with a criteria mapping that has no keys, \<^verbatim>\<open>find\<close>
  returns every book of the store, unfiltered and in the store's order (with the query
  builder of the spec), and so never fails; on the empty store this is the empty list.
\<close>

theorem find_without_criteria_returns_all:
  "fst (service_find \<lparr>buchProps = props, queryBuilder = spec_QueryBuilder matches store\<rparr>
          JSON_stringify None calls) = Inr (map (load False) store) \<and>
   fst (service_find \<lparr>buchProps = props, queryBuilder = spec_QueryBuilder matches store\<rparr>
          JSON_stringify (Some []) calls) = Inr (map (load False) store)"
  by (simp add: service_find_undefined service_find_no_keys spec_build_no_criteria)

theorem find_without_criteria_returns_all_witness:
  "fst (service_find \<lparr>buchProps = [''id''], queryBuilder = spec_QueryBuilder example_matches []\<rparr>
          example_stringify None []) = Inr [] \<and>
   fst (service_find \<lparr>buchProps = [''id''], queryBuilder = spec_QueryBuilder example_matches []\<rparr>
          example_stringify (Some []) []) = Inr [] \<and>
   fst (service_find example_service example_stringify (Some []) []) =
     Inr [example_buch 1 ''Alpha'', example_buch 20 ''Beta'']"
  using find_without_criteria_returns_all [of "[''id'']" example_matches "[]" example_stringify "[]"]
    find_without_criteria_returns_all [of "[''id'', ''isbn'', ''art'', ''titel'']" example_matches
      example_store example_stringify "[]"]
  by (simp add: example_defs)

text \<open>
  C3. For a criteria mapping with at least one key, all keys passing the check,
  \<^verbatim>\<open>find\<close> builds the query from these criteria and runs it once; if it yields no
  rows the request fails with a \<^verbatim>\<open>NotFoundException\<close> whose message ends with the
  criteria as \<^verbatim>\<open>JSON.stringify\<close> writes them, and otherwise the rows are returned.
\<close>

theorem find_valid_criteria:
  assumes "sk \<noteq> []"
    and "\<forall>key \<in> set (Object_keys sk).
           key \<in> set (buchProps svc) \<or> key = ''javascript'' \<or> key = ''typescript''"
  shows "service_find svc JSON_stringify (Some sk) calls =
           (if getMany (build (queryBuilder svc) sk) = []
            then Inl (NotFoundException (''Keine Buecher gefunden: '' @ JSON_stringify sk))
            else Inr (getMany (build (queryBuilder svc) sk)),
            calls @ [Build sk, GetMany])"
proof -
  from assms(1) have "Object_keys sk \<noteq> []" by (simp add: Object_keys_def)
  moreover from assms(2) have "checkKeys (buchProps svc) (Object_keys sk)"
    by (simp add: checkKeys_iff)
  ultimately show ?thesis by (rule service_find_valid)
qed

theorem find_valid_criteria_witness:
  "service_find example_service example_stringify (Some [(''titel'', ''Gamma'')]) [] =
     (Inl (NotFoundException (''Keine Buecher gefunden: '' @
             example_stringify [(''titel'', ''Gamma'')])),
      [Build [(''titel'', ''Gamma'')], GetMany]) \<and>
   service_find example_service example_stringify
       (Some [(''titel'', ''Beta''), (''javascript'', ''true'')]) [] =
     (Inr [example_buch 20 ''Beta''],
      [Build [(''titel'', ''Beta''), (''javascript'', ''true'')], GetMany])"
  using find_valid_criteria [of "[(''titel'', ''Gamma'')]" example_service example_stringify "[]"]
    find_valid_criteria [of "[(''titel'', ''Beta''), (''javascript'', ''true'')]" example_service
      example_stringify "[]"]
  by (simp add: Object_keys_def example_defs)

text \<open>
  C6. When a criteria mapping has a key that is not recognised, \<^verbatim>\<open>find\<close> fails and
  the log of calls is as it was before the request: no query was built and none was
  run.
\<close>

theorem find_unknown_key_runs_no_query:
  assumes "key \<in> set (Object_keys sk)" and "key \<notin> set (buchProps svc)"
    and "key \<noteq> ''javascript''" and "key \<noteq> ''typescript''"
  shows "\<exists>e. service_find svc JSON_stringify (Some sk) calls = (Inl e, calls)"
  by (simp add: service_find_invalid [OF assms])

theorem find_unknown_key_runs_no_query_witness:
  "\<exists>e. service_find example_service example_stringify
          (Some [(''titel'', ''Alpha''), (''verlag'', ''Acme'')]) [BuildId 1 False, GetOne] =
        (Inl e, [BuildId 1 False, GetOne])"
  using find_unknown_key_runs_no_query [of "''verlag''"
      "[(''titel'', ''Alpha''), (''verlag'', ''Acme'')]" example_service example_stringify
      "[BuildId 1 False, GetOne]"]
  by (simp add: Object_keys_def example_service_def)


subsection \<open>Looking up by identifier\<close>



text \<open>
  C7. With the query builder of the spec and unique identifiers, for a stored book with
  a positive identifier: \<^verbatim>\<open>findById\<close> with \<^verbatim>\<open>mitAbbildungen\<close> true returns the book
  with its image records in \<^verbatim>\<open>abbildungen\<close>; with \<^verbatim>\<open>mitAbbildungen\<close> false or left
  out it returns the book with \<^verbatim>\<open>abbildungen\<close> undefined. Leaving the flag out is the
  same request as setting it to false, whatever the query builder is.
\<close>

theorem findById_mitAbbildungen:
  assumes "distinct (map (\<lambda>row. buch_id (fst row)) store)"
    and "(b, images) \<in> set store" and "0 < buch_id b"
  shows "fst (service_findById
                \<lparr>buchProps = props, queryBuilder = spec_QueryBuilder matches store\<rparr>
                \<lparr>params_id = buch_id b, mitAbbildungen = Some True\<rparr> calls) =
           Inr (b\<lparr>abbildungen := Some images\<rparr>) \<and>
         fst (service_findById
                \<lparr>buchProps = props, queryBuilder = spec_QueryBuilder matches store\<rparr>
                \<lparr>params_id = buch_id b, mitAbbildungen = Some False\<rparr> calls) =
           Inr (b\<lparr>abbildungen := None\<rparr>) \<and>
         fst (service_findById
                \<lparr>buchProps = props, queryBuilder = spec_QueryBuilder matches store\<rparr>
                \<lparr>params_id = buch_id b, mitAbbildungen = None\<rparr> calls) =
           Inr (b\<lparr>abbildungen := None\<rparr>) \<and>
         service_findById svc \<lparr>params_id = j, mitAbbildungen = None\<rparr> calls =
           service_findById svc \<lparr>params_id = j, mitAbbildungen = Some False\<rparr> calls"
  using spec_getOne_found [OF assms(1,2), of matches True]
    spec_getOne_found [OF assms(1,2), of matches False]
  by (simp add: service_findById_eq load_def)

theorem findById_mitAbbildungen_witness:
  "fst (service_findById example_service \<lparr>params_id = 1, mitAbbildungen = Some True\<rparr> []) =
     Inr ((example_buch 1 ''Alpha'')\<lparr>abbildungen := Some [''Abb. 1'']\<rparr>) \<and>
   fst (service_findById example_service \<lparr>params_id = 1, mitAbbildungen = Some False\<rparr> []) =
     Inr ((example_buch 1 ''Alpha'')\<lparr>abbildungen := None\<rparr>) \<and>
   fst (service_findById example_service \<lparr>params_id = 1, mitAbbildungen = None\<rparr> []) =
     Inr ((example_buch 1 ''Alpha'')\<lparr>abbildungen := None\<rparr>)"
proof -
  have stored: "(example_buch 1 ''Alpha'', [''Abb. 1'']) \<in> set example_store"
    by (simp add: example_store_def)
  have positive: "0 < buch_id (example_buch 1 ''Alpha'')"
    by (simp add: example_buch_def)
  have id: "buch_id (example_buch 1 ''Alpha'') = 1"
    by (simp add: example_buch_def)
  show ?thesis
    using findById_mitAbbildungen [OF example_store_distinct stored positive,
        of "buchProps example_service" example_matches "[]" example_service 1]
    by (simp add: id example_service_def)
qed

text \<open>
  C9. The resolver of the GraphQL query \<^verbatim>\<open>buch\<close> turns every input into exactly one
  call of \<^verbatim>\<open>buildId\<close>, with the identifier of the input and the image flag false, and
  one execution of that query; with the query builder of the spec a book that comes
  back has \<^verbatim>\<open>abbildungen\<close> undefined.
\<close>

theorem resolver_findById_never_loads_images:
  "snd (resolver_findById svc input calls) =
     calls @ [BuildId (idInput_id input) False, GetOne] \<and>
   (\<forall>b. fst (resolver_findById
               \<lparr>buchProps = props, queryBuilder = spec_QueryBuilder matches store\<rparr>
               input calls) = Inr b \<longrightarrow> abbildungen b = None)"
proof (intro conjI allI impI)
  show "snd (resolver_findById svc input calls) =
          calls @ [BuildId (idInput_id input) False, GetOne]"
    by (simp add: resolver_findById_def service_findById_eq Let_def)
next
  fix b
  assume "fst (resolver_findById
                 \<lparr>buchProps = props, queryBuilder = spec_QueryBuilder matches store\<rparr>
                 input calls) = Inr b"
  then have "getOne (buildId (spec_QueryBuilder matches store) (idInput_id input) False) = Some b"
    by (simp add: resolver_findById_def service_findById_eq Let_def split: option.splits)
  from spec_getOne_abbildungen [OF this] show "abbildungen b = None" by simp
qed

theorem resolver_findById_never_loads_images_witness:
  "resolver_findById example_service \<lparr>idInput_id = 1\<rparr> [] =
     (Inr (example_buch 1 ''Alpha''), [BuildId 1 False, GetOne]) \<and>
   abbildungen (example_buch 1 ''Alpha'') = None"
proof -
  have run: "resolver_findById example_service \<lparr>idInput_id = 1\<rparr> [] =
      (Inr (example_buch 1 ''Alpha''), [BuildId 1 False, GetOne])"
    by (simp add: resolver_findById_def service_defs example_defs)
  from resolver_findById_never_loads_images [of example_service "\<lparr>idInput_id = 1\<rparr>" "[]"
      "buchProps example_service" example_matches example_store]
  have "fst (resolver_findById example_service \<lparr>idInput_id = 1\<rparr> []) =
          Inr (example_buch 1 ''Alpha'') \<longrightarrow> abbildungen (example_buch 1 ''Alpha'') = None"
    by (simp add: example_service_def)
  with run show ?thesis by simp
qed

subsection \<open>Loading an image\<close>

text \<open>
  C10. \<^verbatim>\<open>findImageByName\<close> reads the file whose path is the fixed prefix
  \<^verbatim>\<open>C:/Users/Student/SWE/buch/images/\<close> followed by the image name as it was given.
  If the read succeeds, the bytes read are returned, also when there are none; if it
  fails, the request fails with a \<^verbatim>\<open>NotFoundException\<close> whose message ends with the
  image name.
\<close>

theorem findImageByName_reads_fixed_path:
  "service_findImageByName readFile imageName =
     (case readFile (''C:/Users/Student/SWE/buch/images/'' @ imageName) of
        Some bytes \<Rightarrow> Inr bytes
      | None \<Rightarrow> Inl (NotFoundException (''Image not found for name: '' @ imageName)))"
  by (simp add: service_findImageByName_def loadImageFromServer_def
      loadImageFromFileSystem_def not_Buffer_def Let_def split: option.splits)

theorem findImageByName_reads_fixed_path_witness:
  "service_findImageByName [''C:/Users/Student/SWE/buch/images/../app.yml'' \<mapsto> [0x61, 0x3A]]
     ''../app.yml'' = Inr [0x61, 0x3A] \<and>
   service_findImageByName [''C:/Users/Student/SWE/buch/images/../app.yml'' \<mapsto> [0x61, 0x3A]]
     ''a.png'' = Inl (NotFoundException ''Image not found for name: a.png'') \<and>
   service_findImageByName [''C:/Users/Student/SWE/buch/images/leer.png'' \<mapsto> []]
     ''leer.png'' = Inr []"
  using findImageByName_reads_fixed_path
      [of "[''C:/Users/Student/SWE/buch/images/../app.yml'' \<mapsto> [0x61, 0x3A]]" "''../app.yml''"]
    findImageByName_reads_fixed_path
      [of "[''C:/Users/Student/SWE/buch/images/../app.yml'' \<mapsto> [0x61, 0x3A]]" "''a.png''"]
    findImageByName_reads_fixed_path
      [of "[''C:/Users/Student/SWE/buch/images/leer.png'' \<mapsto> []]" "''leer.png''"]
  by simp


subsection \<open>Padding and doubles\<close>

lemma decimal_zero_Cons: "decimal (CHR ''0'' # ds) = decimal ds"
  by (simp add: decimal_def digit_value_def)

lemma decimal_zeros: "decimal (replicate z CHR ''0'' @ ds) = decimal ds"
  by (induction z) (simp_all add: decimal_zero_Cons)

lemma toFixed_two_places:
  assumes "0 \<le> x"
  shows "\<exists>ip fr. toFixed x 2 = ip @ ''.'' @ fr \<and> ip \<noteq> [] \<and> length fr = 2 \<and>
           set (ip @ fr) \<subseteq> set ''0123456789'' \<and>
           decimal (ip @ fr) = nat \<lfloor>x * 100 + 1 / 2\<rfloor>"
proof -
  define n where "n = nat \<lfloor>x * 100 + 1 / 2\<rfloor>"
  define m where "m = (if length (digits n) \<le> 2
      then replicate (3 - length (digits n)) CHR ''0'' @ digits n else digits n)"
  define k where "k = (if length (digits n) \<le> 2 then 3 else length (digits n))"
  have zero: "digits 0 = ''0''" by (simp add: digits.simps digit_def)
  have len: "length m = k" "3 \<le> k"
    using digits_not_Nil [of n] by (auto simp: m_def k_def)
  have "toFixed x 2 = take (k - 2) m @ ''.'' @ drop (k - 2) m"
    using assms zero by (simp add: toFixed_def Let_def n_def m_def k_def abs_of_nonneg)
  moreover have "take (k - 2) m \<noteq> []" using len by auto
  moreover have "length (drop (k - 2) m) = 2" using len by auto
  moreover have "set m \<subseteq> set ''0123456789''"
    using set_digits [of n] by (auto simp: m_def)
  moreover have "decimal m = n"
    by (simp add: m_def decimal_zeros decimal_digits)
  ultimately show ?thesis
    unfolding n_def [symmetric] 
    by (intro exI [of _ "take (k - 2) m"] exI [of _ "drop (k - 2) m"]) simp
qed


lemma pow2_pos: "0 < pow2 k"
  by (simp add: pow2_def zero_less_power_int)

lemma pow2_add: "pow2 (j + k) = pow2 j * pow2 k"
  by (simp add: pow2_def power_int_add)

lemma pow2_less: "j < k \<Longrightarrow> pow2 j < pow2 k"
  by (simp add: pow2_def power_int_strict_increasing)

lemma pow2_nat: "0 \<le> k \<Longrightarrow> pow2 k = of_int (2 ^ nat k)"
  by (simp add: pow2_def power_int_def)

lemma bitlen_pow2_bounds:
  assumes "0 < a"
  shows "pow2 (bitlen a - 1) \<le> of_int a" and "of_int a < pow2 (bitlen a)"
proof -
  from assms have pos: "1 \<le> bitlen a"
    by (simp add: bitlen_alt_def)
  from bitlen_bounds [OF assms]
  have "of_int (2 ^ nat (bitlen a - 1)) \<le> (of_int a :: rat)"
    and "(of_int a :: rat) < of_int (2 ^ nat (bitlen a))"
    unfolding of_int_le_iff of_int_less_iff by simp_all
  with pos show "pow2 (bitlen a - 1) \<le> of_int a" and "of_int a < pow2 (bitlen a)"
    by (simp_all add: pow2_nat)
qed

lemma exponent_bounds:
  assumes "0 < x"
  shows "pow2 (exponent x) \<le> x \<and> x < pow2 (exponent x + 1)"
proof -
  obtain a b where q: "quotient_of x = (a, b)" by (cases "quotient_of x")
  then have b: "0 < b" and x: "x = of_int a / of_int b"
    by (simp_all add: quotient_of_denom_pos quotient_of_div)
  with assms have a: "0 < a"
    by (simp add: zero_less_divide_iff)
  define k where "k = bitlen a - bitlen b"
  have e: "exponent x = (if pow2 k \<le> x then k else k - 1)"
    by (simp add: exponent_def q k_def)
  have "x < pow2 (bitlen a) / pow2 (bitlen b - 1)"
    unfolding x using bitlen_pow2_bounds [OF a] bitlen_pow2_bounds [OF b] a b
    by (intro frac_less) (simp_all add: pow2_pos)
  also have "\<dots> = pow2 (k + 1)"
    using pow2_add [of "k + 1" "bitlen b - 1"] pow2_pos [of "bitlen b - 1"]
    by (simp add: k_def field_simps)
  finally have upper: "x < pow2 (k + 1)" .
  have "pow2 (bitlen a - 1) / pow2 (bitlen b) < x"
    unfolding x using bitlen_pow2_bounds [OF a] bitlen_pow2_bounds [OF b] a b
    by (intro frac_less2) (simp_all add: pow2_pos)
  moreover have "pow2 (bitlen a - 1) / pow2 (bitlen b) = pow2 (k - 1)"
    using pow2_add [of "k - 1" "bitlen b"] pow2_pos [of "bitlen b"]
    by (simp add: k_def field_simps)
  ultimately have lower: "pow2 (k - 1) < x" by simp
  from upper lower show ?thesis
    by (auto simp: e not_le)
qed

lemma round_half_even_le:
  assumes "y \<le> of_int N"
  shows "round_half_even y \<le> N"
proof (cases "y = of_int N")
  case True
  then show ?thesis by (simp add: round_half_even_def)
next
  case False
  with assms have "y < of_int N" by simp
  then have "\<lfloor>y\<rfloor> < N" by (simp add: floor_less_iff)
  then show ?thesis by (simp add: round_half_even_def Let_def)
qed

lemma round_half_even_ge:
  assumes "of_int N \<le> y"
  shows "N \<le> round_half_even y"
proof -
  from assms have "N \<le> \<lfloor>y\<rfloor>" by (simp add: le_floor_iff)
  then show ?thesis by (simp add: round_half_even_def Let_def)
qed

lemma round_double_percent:
  assumes "0 \<le> x" and "x \<le> 100"
  shows "0 \<le> round_double x \<and> round_double x \<le> 100"
proof (cases "x = 0")
  case True
  then show ?thesis by (simp add: round_double_def)
next
  case False
  with assms have pos: "0 < x" by simp
  define p where "p = max (exponent x - 52) (- 1074)"
  have rd: "round_double x = of_int (round_half_even (x / pow2 p)) * pow2 p"
    using pos by (simp add: round_double_def p_def Let_def)
  have "pow2 (exponent x) \<le> x" using exponent_bounds [OF pos] by simp
  also have "x < pow2 7" using assms(2) by (simp add: pow2_def)
  finally have "exponent x < 7"
    using pow2_less [of 7 "exponent x"] by (cases "exponent x < 7") (auto simp: not_less dest: pow2_less le_neq_trans)
  then have p: "p \<le> 0" by (simp add: p_def)
  define N :: int where "N = 100 * 2 ^ nat (- p)"
  have N: "of_int N = 100 / pow2 p"
    using p pow2_add [of p "- p"] pow2_nat [of "- p"] pow2_pos [of p]
    by (simp add: N_def field_simps pow2_def)
  have "x / pow2 p \<le> of_int N"
    unfolding N using assms(2) pow2_pos [of p] by (simp add: divide_right_mono)
  then have "round_half_even (x / pow2 p) \<le> N" by (rule round_half_even_le)
  then have "(of_int (round_half_even (x / pow2 p)) :: rat) \<le> of_int N"
    by (simp only: of_int_le_iff)
  then have "round_double x \<le> of_int N * pow2 p"
    unfolding rd using pow2_pos [of p] by (simp add: mult_right_mono)
  also have "\<dots> = 100" unfolding N using pow2_pos [of p] by simp
  finally have upper: "round_double x \<le> 100" .
  have "of_int 0 \<le> x / pow2 p" using pos pow2_pos [of p] by simp
  then have "0 \<le> round_half_even (x / pow2 p)" by (rule round_half_even_ge)
  then have "0 \<le> round_double x"
    unfolding rd using pow2_pos [of p] by simp
  with upper show ?thesis by simp
qed

subsection \<open>The discount as a percentage\<close>

lemma tenth_double: "round_double (1 / 10) = 3602879701896397 / 36028797018963968"
  by code_simp

lemma tenth_times_hundred: "number_times (round_double (1 / 10)) 100 = 10"
  by code_simp

lemma ten_toFixed: "toFixed 10 2 = ''10.00''"
  by code_simp

text \<open>
  C8, as the code has it. Let \<open>r\<close> be the discount of a book, zero if it is undefined,
  with \<open>0 \<le> r \<le> 1\<close>. The field \<^verbatim>\<open>rabatt\<close> renders the JavaScript product of \<open>r\<close>
  and 100, which lies between 0 and 100, as digits with exactly two of them after the
  point: read without the point they are the integer nearest to a hundred times the
  product, the larger one of two. A space and a suffix follow: \<^verbatim>\<open>%\<close> when
  \<^verbatim>\<open>short\<close> is undefined or true, \<^verbatim>\<open>Prozent\<close> when it is false. A book with the
  discount \<^verbatim>\<open>0.1\<close> is rendered as \<^verbatim>\<open>10.00 %\<close> when \<^verbatim>\<open>short\<close> is undefined or true.
\<close>

theorem rabatt_rendering:
  assumes "r = (case rabatt b of None \<Rightarrow> 0 | Some x \<Rightarrow> x)" and "0 \<le> r" and "r \<le> 1"
  shows "(\<exists>ip fr. resolver_rabatt b short =
              ip @ ''.'' @ fr @ '' '' @ (if short = Some False then ''Prozent'' else ''%'') \<and>
            ip \<noteq> [] \<and> length fr = 2 \<and> set (ip @ fr) \<subseteq> set ''0123456789'' \<and>
            decimal (ip @ fr) = nat \<lfloor>number_times r 100 * 100 + 1 / 2\<rfloor>) \<and>
         0 \<le> number_times r 100 \<and> number_times r 100 \<le> 100 \<and>
         (r = round_double (1 / 10) \<and> short \<noteq> Some False \<longrightarrow>
            resolver_rabatt b short = ''10.00 %'')"
proof -
  from assms(2,3) have "0 \<le> r * 100" and "r * 100 \<le> 100" by simp_all
  then have range: "0 \<le> number_times r 100 \<and> number_times r 100 \<le> 100"
    unfolding number_times_def by (rule round_double_percent)
  have suffix: "(if short = None \<or> short = Some True then ''%'' else ''Prozent'') =
      (if short = Some False then ''Prozent'' else ''%'')"
    by (cases short) auto
  have run: "resolver_rabatt b short =
      toFixed (number_times r 100) 2 @ '' '' @ (if short = Some False then ''Prozent'' else ''%'')"
    unfolding resolver_rabatt_def Let_def suffix assms(1) ..
  from range toFixed_two_places [of "number_times r 100"]
  obtain ip fr where "toFixed (number_times r 100) 2 = ip @ ''.'' @ fr" and "ip \<noteq> []"
    and "length fr = 2" and "set (ip @ fr) \<subseteq> set ''0123456789''"
    and "decimal (ip @ fr) = nat \<lfloor>number_times r 100 * 100 + 1 / 2\<rfloor>"
    by blast
  with run have shape: "\<exists>ip fr. resolver_rabatt b short =
              ip @ ''.'' @ fr @ '' '' @ (if short = Some False then ''Prozent'' else ''%'') \<and>
            ip \<noteq> [] \<and> length fr = 2 \<and> set (ip @ fr) \<subseteq> set ''0123456789'' \<and>
            decimal (ip @ fr) = nat \<lfloor>number_times r 100 * 100 + 1 / 2\<rfloor>"
    by (intro exI [of _ ip] exI [of _ fr]) simp
  have "resolver_rabatt b short = ''10.00 %''"
    if "r = round_double (1 / 10)" and "short \<noteq> Some False"
    using that by (simp add: run tenth_times_hundred ten_toFixed)
  with shape range show ?thesis by blast
qed

theorem rabatt_rendering_witness:
  "0 \<le> round_double (1 / 10) \<and> round_double (1 / 10) \<le> 1 \<and>
   resolver_rabatt example_rabatt_buch None = ''10.00 %'' \<and>
   number_times (round_double (1 / 10)) 100 \<le> 100 \<and>
   (\<exists>ip fr. resolver_rabatt example_rabatt_buch None = ip @ ''.'' @ fr @ '' %'' \<and>
      ip \<noteq> [] \<and> length fr = 2 \<and> decimal (ip @ fr) = 1000)"
proof -
  have r: "round_double (1 / 10) =
      (case rabatt example_rabatt_buch of None \<Rightarrow> 0 | Some x \<Rightarrow> x)"
    by (simp add: example_rabatt_buch_def example_buch_def)
  have lower: "0 \<le> round_double (1 / 10)" and upper: "round_double (1 / 10) \<le> 1"
    by (simp_all add: tenth_double)
  have nearest: "nat \<lfloor>number_times (round_double (1 / 10)) 100 * 100 + 1 / 2\<rfloor> = 1000"
    unfolding tenth_times_hundred by code_simp
  note rendering = rabatt_rendering [OF r lower upper, of None]
  from rendering have rendered: "resolver_rabatt example_rabatt_buch None = ''10.00 %''"
    by simp
  from rendering have range: "number_times (round_double (1 / 10)) 100 \<le> 100"
    by simp
  from rendering obtain ip fr
    where "resolver_rabatt example_rabatt_buch None = ip @ ''.'' @ fr @ '' %''"
      and "ip \<noteq> []" and "length fr = 2" and "decimal (ip @ fr) = 1000"
    unfolding nearest by auto
  then have "\<exists>ip fr. resolver_rabatt example_rabatt_buch None = ip @ ''.'' @ fr @ '' %'' \<and>
      ip \<noteq> [] \<and> length fr = 2 \<and> decimal (ip @ fr) = 1000"
    by blast
  with lower upper rendered range show ?thesis by blast
qed

text \<open>
  C8, as the spec states it, fails when \<^verbatim>\<open>short\<close> is false: the book with the
  discount \<^verbatim>\<open>0.1\<close> is then rendered with the suffix \<^verbatim>\<open>Prozent\<close>.
\<close>

theorem rabatt_rendering_counterexample:
  "resolver_rabatt example_rabatt_buch (Some False) = ''10.00 Prozent'' \<and>
   resolver_rabatt example_rabatt_buch (Some False) \<noteq> ''10.00 %''"
  by (simp add: resolver_rabatt_def example_rabatt_buch_def example_buch_def
      tenth_times_hundred ten_toFixed)

end
